theory Spec2Isabelle
  imports Main "HOL-Library.AList"
begin

text \<open>
  A model of \<open>CreatePeerConnectionTask\<close> (\<open>src/task/CreatePeerConnectionTask.ts\<close>), the
  task that binds remote video tracks to tiles; line numbers are those of that file. The
  task's fields and the state of its collaborators form one record that every function
  takes and returns; a function that can raise returns the error or its result together
  with the state reached. Closures are data, timers and listeners are kept in lists, and
  the event loop is the caller: it fires a pending timer, delivers a presence event or
  dispatches a DOM event, one at a time.
\<close>

section \<open>JavaScript values\<close>

text \<open>
  A value that the program may find \<open>undefined\<close>, \<open>null\<close> or present. The
  strict comparison \<open>x !== null\<close> of the source is \<open>x \<noteq> Null\<close> on this type: it
  lets \<open>Undefined\<close> through.
\<close>

datatype 'a js = Undefined | Null | Val 'a

datatype error = TypeError

text \<open>\<open>typeof\<close> on a dimension: the result is always a string.\<close>

fun typeof :: "int js \<Rightarrow> string" where
  "typeof Undefined = ''undefined''"
| "typeof Null = ''object''"
| "typeof (Val n) = ''number''"

text \<open>Truthiness, as \<open>if (x)\<close> reads a number and a string.\<close>

fun truthyNum :: "int js \<Rightarrow> bool" where
  "truthyNum (Val n) = (n \<noteq> 0)"
| "truthyNum Undefined = False"
| "truthyNum Null = False"

fun truthyStr :: "string js \<Rightarrow> bool" where
  "truthyStr (Val s) = (s \<noteq> [])"
| "truthyStr Undefined = False"
| "truthyStr Null = False"

section \<open>Data of the task and of its collaborators\<close>

type_synonym videoTile = nat
type_synonym timerId = nat

text \<open>The two fields of \<open>MediaTrackCapabilities | MediaTrackSettings\<close> that are read.\<close>

record capability =
  width :: "int js"
  height :: "int js"

text \<open>
  A \<open>MediaStreamTrack\<close> as the task uses it: \<open>getSettings\<close> is \<open>None\<close> where the
  browser has no such method, and otherwise what the call returns now.
\<close>

record mediaStreamTrack =
  track_id :: string
  getSettings :: "capability js option"
  getCapabilities :: "capability js"

record mediaStream =
  stream_id :: string
  getVideoTracks :: "string list"

datatype eventTarget = StreamTarget string | TrackTarget string

text \<open>
  Closures are kept as data. \<open>TrackRemovedHandler\<close> is the arrow function of line 261
  (it captures the track and the tile), \<open>DiagCallback\<close> the logging callback of line 219.
\<close>

datatype listener =
    TrackRemovedHandler string videoTile
  | DiagCallback string videoTile string "int js"

text \<open>
  The disposer of lines 262-265: it captures the target, the end event, the handler and
  the track id under which it was stored.
\<close>

record disposer =
  d_target :: eventTarget
  d_endEvent :: string
  d_handler :: listener
  d_trackId :: string

text \<open>The disposer of lines 230-232: video sub-track, event name, callback.\<close>

record videoDisposer =
  vd_videoTrack :: string
  vd_trackEvent :: string
  vd_callback :: listener

text \<open>
  The presence handler of lines 168-175, with what it captures; the id of its timeout
  scheduler makes two handlers of two calls different closures.
\<close>

record presenceHandler =
  ph_tile :: videoTile
  ph_attendeeId :: string
  ph_stream :: string
  ph_width :: "int js"
  ph_height :: "int js"
  ph_streamId :: "int js"
  ph_timeoutScheduler :: timerId

text \<open>The arguments that the async function of lines 279-315 captures.\<close>

record bindArgs =
  ba_track :: string
  ba_tile :: videoTile
  ba_attendeeId :: string
  ba_stream :: string
  ba_streamId :: "int js"
  ba_trackId :: string

datatype callback = RetryFunc bindArgs | PresenceTimeout presenceHandler

text \<open>
  Where a timer's delay comes from: the n-th amount drawn from the backoff policy
  (counting from 0), or the fixed \<open>externalUserIdTimeoutMs\<close>.
\<close>

datatype delay = BackoffDraw nat | ExternalUserIdTimeoutMs

text \<open>
  Modelled from the spec: \<open>VideoTileState\<close> is not in the source file. The spec gives a
  tile the attributes id, boundAttendeeId, externalUserId, width, height and streamId;
  a new tile has its id and none of the others set.
\<close>

record videoTileState =
  tileId :: nat
  boundAttendeeId :: "string js"
  boundExternalUserId :: "string js"
  boundStream :: "string js"
  videoStreamContentWidth :: "int js"
  videoStreamContentHeight :: "int js"
  streamId :: "int js"

definition newTileState :: "nat \<Rightarrow> videoTileState" where
  "newTileState n = \<lparr>tileId = n, boundAttendeeId = Null, boundExternalUserId = Null, boundStream = Null,
     videoStreamContentWidth = Null, videoStreamContentHeight = Null, streamId = Null\<rparr>"

datatype logEntry =
    InfoRemovingExistingTiles "nat list" string
  | WarnStreamNotFound nat string
  | InfoVideoTrackAdded nat string "int js"
  | InfoVideoTrackEnded nat string "int js"
  | WarnNoStreamFound nat
  | InfoReceivedEvent string nat string "int js"

text \<open>
  The collaborators that are only asked: browser behaviour, the stream index and the
  identity directory.
\<close>

record audioVideoControllerState =
  requiresUnifiedPlan :: bool
  attendeeIdForTrack :: "string \<Rightarrow> string"
  streamIdForTrack :: "string \<Rightarrow> int js"
  realtimeExternalUserIdFromAttendeeId :: "string \<Rightarrow> string js"
  newMediaStreamId :: string

text \<open>
  The fields of \<open>CreatePeerConnectionTask\<close> (first block) and the state of the
  collaborators it changes (second block): the listeners on the peer, on streams and on
  tracks, the pending timers, the presence feed with a log of its unsubscribe calls, the
  tile objects and the tile registry, the paused-stream tracker and the logger.
\<close>

record world =
  removeTrackAddedEventListener :: bool
  removeTrackRemovedEventListeners :: "(string \<times> disposer) list"
  presenceHandlerSet :: "presenceHandler list"
  removeVideoTrackEventListeners :: "(string \<times> videoDisposer list) list"
  trackCapability :: "capability js"
  backoffPolicy :: "nat option"
  backoffTimer :: "timerId option"
  isContentWidthHeightSet :: bool
  peer :: bool
  peerTrackListener :: bool
  listeners :: "(eventTarget \<times> string \<times> listener) list"
  timers :: "(timerId \<times> delay \<times> callback) list"
  nextTimerId :: timerId
  subscribed :: "presenceHandler list"
  unsubscribeCalls :: "presenceHandler list"
  tiles :: "(videoTile \<times> videoTileState) list"
  tileMap :: "videoTile list"
  nextTileId :: nat
  videosPausedRemoved :: "int js list"
  logs :: "logEntry list"

section \<open>The capability check\<close>

text \<open>
  \<open>isCapabilitySet\<close>, lines 319-336. The \<open>console.log\<close> calls print only, except the
  one of line 333, which reads \<open>this.trackCapability.width\<close> where the snapshot is
  \<open>null\<close>, and the test of line 324, which reads \<open>.width\<close> where the snapshot is
  \<open>undefined\<close>: both raise a TypeError. The second conjunct of line 324 compares the
  string \<open>typeof height\<close> with \<open>null\<close>.
\<close>

definition isCapabilitySet :: "world \<Rightarrow> (error + bool) \<times> world" where
  "isCapabilitySet w =
     (case trackCapability w of
        Null \<Rightarrow> (Inl TypeError, w)
      | Undefined \<Rightarrow> (Inl TypeError, w)
      | Val c \<Rightarrow>
          if width c \<noteq> Null \<and> Val (typeof (height c)) \<noteq> (Null :: string js)
          then (Inr True, w)
          else (Inr False, w\<lparr>isContentWidthHeightSet := False\<rparr>))"

section \<open>Collaborators\<close>

text \<open>
  Modelled from the spec: \<open>TimeoutScheduler\<close> is not in the source file. A scheduler
  is a one-shot timer: \<open>start\<close> makes its callback pending (replacing what the same
  scheduler had pending), \<open>stop\<close> cancels it.
\<close>

definition newTimeoutScheduler :: "world \<Rightarrow> timerId \<times> world" where
  "newTimeoutScheduler w = (nextTimerId w, w\<lparr>nextTimerId := Suc (nextTimerId w)\<rparr>)"

definition timerStop :: "timerId \<Rightarrow> world \<Rightarrow> world" where
  "timerStop t w = w\<lparr>timers := filter (\<lambda>x. fst x \<noteq> t) (timers w)\<rparr>"

definition timerStart :: "timerId \<Rightarrow> delay \<Rightarrow> callback \<Rightarrow> world \<Rightarrow> world" where
  "timerStart t d cb w = w\<lparr>timers := filter (\<lambda>x. fst x \<noteq> t) (timers w) @ [(t, d, cb)]\<rparr>"

text \<open>
  Modelled from the spec: the backoff policy (\<open>FullJitterBackoff\<close>) is not in the source
  file. Its state is the number of amounts drawn so far; a timer records which draw gave
  its delay. The field is \<open>undefined\<close> until \<open>addRemoteVideoTrack\<close> assigns it.
\<close>

definition nextBackoffAmountMs :: "world \<Rightarrow> (error + nat) \<times> world" where
  "nextBackoffAmountMs w =
     (case backoffPolicy w of
        None \<Rightarrow> (Inl TypeError, w)
      | Some n \<Rightarrow> (Inr n, w\<lparr>backoffPolicy := Some (Suc n)\<rparr>))"

text \<open>
  Modelled from the spec: the presence feed has \<open>subscribe(handler)\<close> and
  \<open>unsubscribe(handler)\<close>; after \<open>unsubscribe\<close> the handler is not subscribed. Every
  unsubscribe call is logged, whether or not the handler was still subscribed.
\<close>

definition realtimeSubscribeToAttendeeIdPresence :: "presenceHandler \<Rightarrow> world \<Rightarrow> world" where
  "realtimeSubscribeToAttendeeIdPresence h w = w\<lparr>subscribed := subscribed w @ [h]\<rparr>"

definition realtimeUnsubscribeToAttendeeIdPresence :: "presenceHandler \<Rightarrow> world \<Rightarrow> world" where
  "realtimeUnsubscribeToAttendeeIdPresence h w =
     w\<lparr>subscribed := removeAll h (subscribed w), unsubscribeCalls := unsubscribeCalls w @ [h]\<rparr>"

text \<open>DOM event targets: a listener already present is not added again.\<close>

definition addEventListener :: "eventTarget \<Rightarrow> string \<Rightarrow> listener \<Rightarrow> world \<Rightarrow> world" where
  "addEventListener t e l w =
     (if (t, e, l) \<in> set (listeners w) then w else w\<lparr>listeners := listeners w @ [(t, e, l)]\<rparr>)"

definition removeEventListener :: "eventTarget \<Rightarrow> string \<Rightarrow> listener \<Rightarrow> world \<Rightarrow> world" where
  "removeEventListener t e l w = w\<lparr>listeners := removeAll (t, e, l) (listeners w)\<rparr>"

text \<open>
  Modelled from the spec: the tile registry (\<open>addTile\<close>, \<open>removeTile\<close>,
  \<open>removeTilesByAttendeeId\<close>) and the tile's \<open>bindVideoStream\<close> and \<open>state\<close> are not
  in the source file. A tile object outlives its registry entry: \<open>tiles\<close> keeps the
  state of every tile created, \<open>tileMap\<close> the ids in the registry.
\<close>

definition state :: "world \<Rightarrow> videoTile \<Rightarrow> videoTileState" where
  "state w t = (case map_of (tiles w) t of Some s \<Rightarrow> s | None \<Rightarrow> newTileState t)"

definition addVideoTile :: "world \<Rightarrow> videoTile \<times> world" where
  "addVideoTile w =
     (nextTileId w,
      w\<lparr>tiles := tiles w @ [(nextTileId w, newTileState (nextTileId w))],
        tileMap := tileMap w @ [nextTileId w],
        nextTileId := Suc (nextTileId w)\<rparr>)"

definition removeVideoTile :: "nat \<Rightarrow> world \<Rightarrow> world" where
  "removeVideoTile n w = w\<lparr>tileMap := removeAll n (tileMap w)\<rparr>"

definition removeVideoTilesByAttendeeId :: "string \<Rightarrow> world \<Rightarrow> nat list \<times> world" where
  "removeVideoTilesByAttendeeId a w =
     (let tilesRemoved = filter (\<lambda>t. boundAttendeeId (state w t) = Val a) (tileMap w)
      in (tilesRemoved, w\<lparr>tileMap := filter (\<lambda>t. t \<notin> set tilesRemoved) (tileMap w)\<rparr>))"

definition bindVideoStream ::
  "videoTile \<Rightarrow> string \<Rightarrow> string \<Rightarrow> int js \<Rightarrow> int js \<Rightarrow> int js \<Rightarrow> string js \<Rightarrow> world \<Rightarrow> world" where
  "bindVideoStream t attendeeId stream wd ht sid externalUserId w =
     w\<lparr>tiles := AList.update t
         \<lparr>tileId = t, boundAttendeeId = Val attendeeId, boundExternalUserId = externalUserId,
          boundStream = Val stream, videoStreamContentWidth = wd,
          videoStreamContentHeight = ht, streamId = sid\<rparr> (tiles w)\<rparr>"

text \<open>
  Modelled from the spec: the paused-stream tracker (\<open>remove(streamId)\<close>) and the logger
  are not in the source file. They keep what they were given; of the logger's output
  only the \<open>info\<close> and \<open>warn\<close> messages of the functions below are kept.
\<close>

definition videosPausedRemove :: "int js \<Rightarrow> world \<Rightarrow> world" where
  "videosPausedRemove sid w = w\<lparr>videosPausedRemoved := videosPausedRemoved w @ [sid]\<rparr>"

definition logger :: "logEntry \<Rightarrow> world \<Rightarrow> world" where
  "logger e w = w\<lparr>logs := logs w @ [e]\<rparr>"

section \<open>The presence subscription\<close>

text \<open>The handler of lines 168-175, called with a presence event.\<close>

definition handler :: "presenceHandler \<Rightarrow> string \<Rightarrow> bool \<Rightarrow> string js \<Rightarrow> world \<Rightarrow> world" where
  "handler h presentAttendeeId present externalUserId w =
     (if ph_attendeeId h = presentAttendeeId \<and> present \<and> externalUserId \<noteq> Null then
        let w1 = bindVideoStream (ph_tile h) (ph_attendeeId h) (ph_stream h) (ph_width h)
                   (ph_height h) (ph_streamId h) externalUserId w;
            w2 = realtimeUnsubscribeToAttendeeIdPresence h w1;
            w3 = w2\<lparr>presenceHandlerSet := removeAll h (presenceHandlerSet w2)\<rparr>
        in timerStop (ph_timeoutScheduler h) w3
      else w)"

text \<open>The timeout callback of lines 178-181.\<close>

definition presenceTimeout :: "presenceHandler \<Rightarrow> world \<Rightarrow> world" where
  "presenceTimeout h w =
     (let w1 = realtimeUnsubscribeToAttendeeIdPresence h w
      in w1\<lparr>presenceHandlerSet := removeAll h (presenceHandlerSet w1)\<rparr>)"

text \<open>\<open>bindExternalIdToRemoteTile\<close>, lines 159-182.\<close>

definition bindExternalIdToRemoteTile ::
  "videoTile \<Rightarrow> string \<Rightarrow> string \<Rightarrow> int js \<Rightarrow> int js \<Rightarrow> int js \<Rightarrow> world \<Rightarrow> world" where
  "bindExternalIdToRemoteTile tile attendeeId stream wd ht sid w =
     (let (timeoutScheduler, w1) = newTimeoutScheduler w;
          h = \<lparr>ph_tile = tile, ph_attendeeId = attendeeId, ph_stream = stream, ph_width = wd,
               ph_height = ht, ph_streamId = sid, ph_timeoutScheduler = timeoutScheduler\<rparr>;
          w2 = realtimeSubscribeToAttendeeIdPresence h w1;
          w3 = w2\<lparr>presenceHandlerSet :=
                    (if h \<in> set (presenceHandlerSet w2) then presenceHandlerSet w2
                     else presenceHandlerSet w2 @ [h])\<rparr>
      in timerStart timeoutScheduler ExternalUserIdTimeoutMs (PresenceTimeout h) w3)"

section \<open>Capability resolution\<close>

text \<open>
  \<open>retryWithBackoff\<close>, lines 338-352. The policy is asked twice: once for the
  \<open>console.log\<close> of line 343 and once for the timer of line 345.
\<close>

definition retryWithBackoff :: "callback \<Rightarrow> world \<Rightarrow> (error + bool) \<times> world" where
  "retryWithBackoff retryFunc w =
     (let willRetry = \<not> isContentWidthHeightSet w in
      if willRetry then
        (case nextBackoffAmountMs w of
           (Inl e, w1) \<Rightarrow> (Inl e, w1)
         | (Inr logged, w1) \<Rightarrow>
             (case nextBackoffAmountMs w1 of
                (Inl e, w2) \<Rightarrow> (Inl e, w2)
              | (Inr n, w2) \<Rightarrow>
                  let (t, w3) = newTimeoutScheduler w2;
                      w4 = w3\<lparr>backoffTimer := Some t\<rparr>
                  in (Inr willRetry, timerStart t (BackoffDraw n) retryFunc w4)))
      else (Inr willRetry, w))"

text \<open>
  The async function of lines 279-315, run when the backoff timer fires; \<open>track\<close> is the
  captured track as it is at that moment. \<open>isCapabilitySet\<close> is called at line 288 (for
  the log) and again at line 289.
\<close>

definition retryFunc ::
  "audioVideoControllerState \<Rightarrow> mediaStreamTrack \<Rightarrow> bindArgs \<Rightarrow> world \<Rightarrow> (error + unit) \<times> world" where
  "retryFunc ctx track a w =
     (let w1 = w\<lparr>trackCapability :=
                  (case getSettings track of Some c \<Rightarrow> c | None \<Rightarrow> getCapabilities track)\<rparr>;
          w2 = w1\<lparr>isContentWidthHeightSet := False\<rparr>
      in case isCapabilitySet w2 of
           (Inl e, w3) \<Rightarrow> (Inl e, w3)
         | (Inr logged, w3) \<Rightarrow>
             (case isCapabilitySet w3 of
                (Inl e, w4) \<Rightarrow> (Inl e, w4)
              | (Inr ready, w4) \<Rightarrow>
                  if ready then
                    (case trackCapability w4 of
                       Val c \<Rightarrow>
                         let externalUserId =
                               realtimeExternalUserIdFromAttendeeId ctx (ba_attendeeId a);
                             wd = width c;
                             ht = height c;
                             w5 = w4\<lparr>isContentWidthHeightSet := True\<rparr>;
                             w6 = (if truthyStr externalUserId
                                   then bindVideoStream (ba_tile a) (ba_attendeeId a) (ba_stream a)
                                          wd ht (ba_streamId a) externalUserId w5
                                   else bindExternalIdToRemoteTile (ba_tile a) (ba_attendeeId a)
                                          (ba_stream a) wd ht (ba_streamId a) w5)
                         in (Inr (),
                             logger (InfoVideoTrackAdded (ba_tile a) (ba_trackId a) (ba_streamId a)) w6)
                     | Undefined \<Rightarrow> (Inl TypeError, w4)
                     | Null \<Rightarrow> (Inl TypeError, w4))
                  else (Inr (), w4)))"

text \<open>\<open>bindTile\<close>, lines 269-317.\<close>

definition bindTile ::
  "mediaStreamTrack \<Rightarrow> videoTile \<Rightarrow> string \<Rightarrow> mediaStream \<Rightarrow> int js \<Rightarrow> string \<Rightarrow> world
     \<Rightarrow> (error + unit) \<times> world" where
  "bindTile track tile attendeeId stream sid trackId w =
     (let w1 = w\<lparr>trackCapability := Null\<rparr>
      in case retryWithBackoff
                (RetryFunc \<lparr>ba_track = track_id track, ba_tile = tile, ba_attendeeId = attendeeId,
                            ba_stream = stream_id stream, ba_streamId = sid, ba_trackId = trackId\<rparr>) w1 of
           (Inl e, w2) \<Rightarrow> (Inl e, w2)
         | (Inr willRetry, w2) \<Rightarrow> (Inr (), w2))"

section \<open>Adding and removing a remote video track\<close>

definition trackEvents :: "string list" where
  "trackEvents = [''ended'', ''mute'', ''unmute'', ''isolationchange'', ''overconstrained'']"

text \<open>
  The loop of lines 209-234: for each track event, if the stream has a video sub-track,
  a logging callback is put on the first one and its disposer is pushed onto the list
  kept under \<open>track.id\<close>, which is created when missing.
\<close>

fun addVideoTrackEventListeners ::
  "string list \<Rightarrow> mediaStreamTrack \<Rightarrow> mediaStream \<Rightarrow> videoTile \<Rightarrow> int js \<Rightarrow> world \<Rightarrow> world" where
  "addVideoTrackEventListeners [] track stream tile sid w = w"
| "addVideoTrackEventListeners (trackEvent # es) track stream tile sid w =
     addVideoTrackEventListeners es track stream tile sid
       (case getVideoTracks stream of
          [] \<Rightarrow> w
        | videoTrack # others \<Rightarrow>
            let callback = DiagCallback trackEvent tile (track_id track) sid;
                w1 = addEventListener (TrackTarget videoTrack) trackEvent callback w;
                registered = (case map_of (removeVideoTrackEventListeners w1) (track_id track) of
                                None \<Rightarrow> []
                              | Some ds \<Rightarrow> ds)
            in w1\<lparr>removeVideoTrackEventListeners :=
                    AList.update (track_id track)
                      (registered @ [\<lparr>vd_videoTrack = videoTrack, vd_trackEvent = trackEvent,
                                       vd_callback = callback\<rparr>])
                      (removeVideoTrackEventListeners w1)\<rparr>)"

text \<open>
  \<open>addRemoteVideoTrack\<close>, lines 184-267. It is called for video tracks only, so the
  stream made at line 187 from the track alone has that track as its video sub-track.
\<close>

definition addRemoteVideoTrack ::
  "audioVideoControllerState \<Rightarrow> mediaStreamTrack \<Rightarrow> mediaStream \<Rightarrow> world \<Rightarrow> (error + unit) \<times> world" where
  "addRemoteVideoTrack ctx track stream0 w =
     (let (stream, trackId) =
            (if \<not> requiresUnifiedPlan ctx
             then (\<lparr>stream_id = newMediaStreamId ctx, getVideoTracks = [track_id track]\<rparr>,
                   track_id track)
             else (stream0, stream_id stream0));
          attendeeId = attendeeIdForTrack ctx trackId;
          (tilesRemoved, w1) = removeVideoTilesByAttendeeId attendeeId w;
          w2 = (if length tilesRemoved > 0
                then logger (InfoRemovingExistingTiles tilesRemoved attendeeId) w1 else w1);
          (tile, w3) = addVideoTile w2;
          found = streamIdForTrack ctx trackId;
          (sid, w4) = (if found = Undefined
                       then (Null, logger (WarnStreamNotFound tile trackId) w3)
                       else (found, w3));
          w5 = addVideoTrackEventListeners trackEvents track stream tile sid w4;
          w6 = w5\<lparr>backoffPolicy := Some 0\<rparr>;
          w7 = w6\<lparr>isContentWidthHeightSet := False\<rparr>
      in case bindTile track tile attendeeId stream sid trackId w7 of
           (Inl e, w8) \<Rightarrow> (Inl e, w8)
         | (Inr u, w8) \<Rightarrow>
             let (endEvent, target) =
                   (if \<not> requiresUnifiedPlan ctx
                    then (''ended'', TrackTarget (track_id track))
                    else (''removetrack'', StreamTarget (stream_id stream)));
                 trackRemovedHandler = TrackRemovedHandler (track_id track) tile;
                 w9 = w8\<lparr>removeTrackRemovedEventListeners :=
                          AList.update (track_id track)
                            \<lparr>d_target = target, d_endEvent = endEvent,
                             d_handler = trackRemovedHandler, d_trackId = track_id track\<rparr>
                            (removeTrackRemovedEventListeners w8)\<rparr>
             in (Inr (), addEventListener target endEvent trackRemovedHandler w9))"

text \<open>Running the disposer of lines 262-265.\<close>

definition runDisposer :: "disposer \<Rightarrow> world \<Rightarrow> world" where
  "runDisposer d w =
     (let w1 = removeEventListener (d_target d) (d_endEvent d) (d_handler d) w
      in w1\<lparr>removeTrackRemovedEventListeners :=
              AList.delete (d_trackId d) (removeTrackRemovedEventListeners w1)\<rparr>)"

text \<open>Running the disposers of lines 230-232, as the loop of lines 357-359 does.\<close>

fun runVideoDisposers :: "videoDisposer list \<Rightarrow> world \<Rightarrow> world" where
  "runVideoDisposers [] w = w"
| "runVideoDisposers (d # ds) w =
     runVideoDisposers ds
       (removeEventListener (TrackTarget (vd_videoTrack d)) (vd_trackEvent d) (vd_callback d) w)"

text \<open>
  \<open>removeRemoteVideoTrack\<close>, lines 354-372. Line 355 calls what the registry holds
  under \<open>track.id\<close>, and line 357 iterates what the other registry holds there: where
  the entry is missing, the call or the iteration raises a TypeError and the rest of the
  function does not run.
\<close>

definition removeRemoteVideoTrack ::
  "string \<Rightarrow> videoTileState \<Rightarrow> world \<Rightarrow> (error + unit) \<times> world" where
  "removeRemoteVideoTrack trackId tileState w =
     (case map_of (removeTrackRemovedEventListeners w) trackId of
        None \<Rightarrow> (Inl TypeError, w)
      | Some d \<Rightarrow>
          let w1 = runDisposer d w
          in (case map_of (removeVideoTrackEventListeners w1) trackId of
                None \<Rightarrow> (Inl TypeError, w1)
              | Some ds \<Rightarrow>
                  let w2 = runVideoDisposers ds w1;
                      w3 = w2\<lparr>removeVideoTrackEventListeners :=
                               AList.delete trackId (removeVideoTrackEventListeners w2)\<rparr>;
                      w4 = logger (InfoVideoTrackEnded (tileId tileState) trackId
                                     (streamId tileState)) w3;
                      w5 = (if truthyNum (streamId tileState)
                            then videosPausedRemove (streamId tileState) w4
                            else logger (WarnNoStreamFound (tileId tileState)) w4)
                  in (Inr (), removeVideoTile (tileId tileState) w5)))"

text \<open>The removal trigger of line 261.\<close>

definition trackRemovedHandler :: "string \<Rightarrow> videoTile \<Rightarrow> world \<Rightarrow> (error + unit) \<times> world" where
  "trackRemovedHandler trackId tile w = removeRemoteVideoTrack trackId (state w tile) w"

section \<open>Session teardown\<close>

text \<open>The closure of lines 117-122.\<close>

definition runRemoveTrackAddedEventListener :: "world \<Rightarrow> world" where
  "runRemoveTrackAddedEventListener w =
     (let w1 = (if peer w then w\<lparr>peerTrackListener := False\<rparr> else w)
      in w1\<lparr>removeTrackAddedEventListener := False\<rparr>)"

text \<open>
  The loop of lines 51-53 over the keys of the registry; a key deleted before its turn is
  not visited. Each disposer deletes its own key only.
\<close>

fun runTrackRemovedDisposers :: "string list \<Rightarrow> world \<Rightarrow> world" where
  "runTrackRemovedDisposers [] w = w"
| "runTrackRemovedDisposers (trackId # ks) w =
     runTrackRemovedDisposers ks
       (case map_of (removeTrackRemovedEventListeners w) trackId of
          None \<Rightarrow> w
        | Some d \<Rightarrow> runDisposer d w)"

text \<open>
  The loop of lines 54-57 over the handler set; a handler deleted before its turn is not
  visited.
\<close>

fun unsubscribeHandlers :: "presenceHandler list \<Rightarrow> world \<Rightarrow> world" where
  "unsubscribeHandlers [] w = w"
| "unsubscribeHandlers (h # hs) w =
     unsubscribeHandlers hs
       (if h \<in> set (presenceHandlerSet w)
        then let w1 = realtimeUnsubscribeToAttendeeIdPresence h w
             in w1\<lparr>presenceHandlerSet := removeAll h (presenceHandlerSet w1)\<rparr>
        else w)"

text \<open>\<open>removeObserver\<close>, lines 49-58.\<close>

definition removeObserver :: "world \<Rightarrow> world" where
  "removeObserver w =
     (let w1 = (if removeTrackAddedEventListener w then runRemoveTrackAddedEventListener w else w);
          w2 = runTrackRemovedDisposers (map fst (removeTrackRemovedEventListeners w1)) w1
      in unsubscribeHandlers (presenceHandlerSet w2) w2)"

section \<open>The event loop\<close>

text \<open>
  A pending timer fires: it is no longer pending and its callback runs. The async
  function's error, if any, stays in its promise. \<open>env\<close> gives each track as it is now.
\<close>

definition fireTimer ::
  "audioVideoControllerState \<Rightarrow> (string \<Rightarrow> mediaStreamTrack) \<Rightarrow> timerId \<Rightarrow> world \<Rightarrow> world" where
  "fireTimer ctx env t w =
     (case map_of (timers w) t of
        None \<Rightarrow> w
      | Some (d, cb) \<Rightarrow>
          let w1 = timerStop t w
          in (case cb of
                RetryFunc a \<Rightarrow> snd (retryFunc ctx (env (ba_track a)) a w1)
              | PresenceTimeout h \<Rightarrow> presenceTimeout h w1))"

text \<open>The presence feed delivers an event to every handler that is still subscribed.\<close>

fun deliverPresence :: "presenceHandler list \<Rightarrow> string \<Rightarrow> bool \<Rightarrow> string js \<Rightarrow> world \<Rightarrow> world" where
  "deliverPresence [] a p e w = w"
| "deliverPresence (h # hs) a p e w =
     deliverPresence hs a p e (if h \<in> set (subscribed w) then handler h a p e w else w)"

definition presenceEvent :: "string \<Rightarrow> bool \<Rightarrow> string js \<Rightarrow> world \<Rightarrow> world" where
  "presenceEvent a p e w = deliverPresence (subscribed w) a p e w"

text \<open>
  An event target dispatches an event to the listeners it has for it; a listener
  removed before its turn is not called, and an error raised by one listener does not
  stop the others.
\<close>

fun runListeners :: "(eventTarget \<times> string \<times> listener) list \<Rightarrow> world \<Rightarrow> world" where
  "runListeners [] w = w"
| "runListeners ((t, e, l) # ls) w =
     runListeners ls
       (if (t, e, l) \<in> set (listeners w)
        then (case l of
                TrackRemovedHandler trackId tile \<Rightarrow> snd (trackRemovedHandler trackId tile w)
              | DiagCallback trackEvent tile trackId sid \<Rightarrow>
                  logger (InfoReceivedEvent trackEvent tile trackId sid) w)
        else w)"

definition dispatchEvent :: "eventTarget \<Rightarrow> string \<Rightarrow> world \<Rightarrow> world" where
  "dispatchEvent t e w =
     runListeners (filter (\<lambda>x. fst x = t \<and> fst (snd x) = e) (listeners w)) w"

text \<open>A task on which \<open>run\<close> has been called and nothing else has happened yet.\<close>

definition initial :: world where
  "initial =
     \<lparr>removeTrackAddedEventListener = True, removeTrackRemovedEventListeners = [],
      presenceHandlerSet = [], removeVideoTrackEventListeners = [],
      trackCapability = Undefined, backoffPolicy = None, backoffTimer = None,
      isContentWidthHeightSet = False, peer = True, peerTrackListener = True,
      listeners = [], timers = [], nextTimerId = 0, subscribed = [], unsubscribeCalls = [],
      tiles = [], tileMap = [], nextTileId = 0, videosPausedRemoved = [], logs = []\<rparr>"

section \<open>Observations and sample inputs\<close>

text \<open>The pending timers that were started by \<open>retryWithBackoff\<close>.\<close>

fun isBackoffTimer :: "timerId \<times> delay \<times> callback \<Rightarrow> bool" where
  "isBackoffTimer (t, d, RetryFunc a) = True"
| "isBackoffTimer (t, d, PresenceTimeout h) = False"

definition backoffTimers :: "world \<Rightarrow> (timerId \<times> delay \<times> callback) list" where
  "backoffTimers w = filter isBackoffTimer (timers w)"

text \<open>Every scheduler with a pending timer was made before the next one to be made.\<close>

definition timerIdsFresh :: "world \<Rightarrow> bool" where
  "timerIdsFresh w = list_all (\<lambda>x. fst x < nextTimerId w) (timers w)"

text \<open>
  A unified-plan session in which every track belongs to attendee \<open>a1\<close>; the identity
  directory and the stream index answer \<open>ext\<close> and \<open>sid\<close>.
\<close>

definition sampleContext :: "string js \<Rightarrow> int js \<Rightarrow> audioVideoControllerState" where
  "sampleContext ext sid =
     \<lparr>requiresUnifiedPlan = True, attendeeIdForTrack = (\<lambda>t. ''a1''),
      streamIdForTrack = (\<lambda>t. sid), realtimeExternalUserIdFromAttendeeId = (\<lambda>a. ext),
      newMediaStreamId = ''s-new''\<rparr>"

text \<open>Track \<open>t1\<close>, whose \<open>getSettings\<close> returns \<open>c\<close>, and stream \<open>s1\<close>.\<close>

definition sampleTrack :: "capability js \<Rightarrow> mediaStreamTrack" where
  "sampleTrack c = \<lparr>track_id = ''t1'', getSettings = Some c, getCapabilities = c\<rparr>"

definition sampleStream :: "string list \<Rightarrow> mediaStream" where
  "sampleStream vs = \<lparr>stream_id = ''s1'', getVideoTracks = vs\<rparr>"

definition complete :: "capability js" where
  "complete = Val \<lparr>width = Val 1280, height = Val 720\<rparr>"

text \<open>The tracks of the session, each with \<open>getSettings\<close> returning \<open>c\<close> now.\<close>

definition sampleTracks :: "capability js \<Rightarrow> string \<Rightarrow> mediaStreamTrack" where
  "sampleTracks c t = sampleTrack c"

text \<open>
  The state after \<open>addRemoteVideoTrack\<close> for track \<open>t1\<close> on stream \<open>s1\<close> in a task
  that has only been run: \<open>vs\<close> are the stream's video sub-tracks and \<open>c\<close> is what
  \<open>getSettings\<close> returns at that moment.
\<close>

definition added :: "string js \<Rightarrow> int js \<Rightarrow> string list \<Rightarrow> capability js \<Rightarrow> world" where
  "added ext sid vs c =
     snd (addRemoteVideoTrack (sampleContext ext sid) (sampleTrack c) (sampleStream vs) initial)"

text \<open>Snapshots without dimensions: \<open>null\<close> ones, and none reported at all.\<close>

definition incomplete :: "capability js" where
  "incomplete = Val \<lparr>width = Null, height = Null\<rparr>"

definition unreported :: "capability js" where
  "unreported = Val \<lparr>width = Undefined, height = Undefined\<rparr>"

text \<open>
  The backoff timer of the added track has fired on a complete snapshot: \<open>awaiting\<close>
  where the identity directory did not know the attendee, so that a presence handler
  (\<open>sampleHandler\<close>) was subscribed; \<open>bound\<close> where it did, with stream id \<open>sid\<close>.
\<close>

definition awaiting :: world where
  "awaiting = fireTimer (sampleContext Null (Val 7)) (sampleTracks complete) 0
                (added Null (Val 7) [''t1''] complete)"

definition sampleHandler :: presenceHandler where
  "sampleHandler = \<lparr>ph_tile = 0, ph_attendeeId = ''a1'', ph_stream = ''s1'', ph_width = Val 1280,
     ph_height = Val 720, ph_streamId = Val 7, ph_timeoutScheduler = 1\<rparr>"

definition bound :: "int js \<Rightarrow> world" where
  "bound sid = fireTimer (sampleContext (Val ''u-42'') sid) (sampleTracks complete) 0
                 (added (Val ''u-42'') sid [''t1''] complete)"

text \<open>The removal trigger of the added track has fired once, before the backoff timer.\<close>

definition released :: world where
  "released = snd (trackRemovedHandler ''t1'' 0 (added (Val ''u-42'') (Val 7) [''t1''] complete))"

text \<open>
  Track \<open>t1\<close> arrives a second time, on stream \<open>s2\<close>, before anything else has happened
  (a receiver keeps its track while the streams it belongs to change); then stream \<open>s1\<close>
  reports a removed track.
\<close>

definition addedTwice :: world where
  "addedTwice =
     snd (addRemoteVideoTrack (sampleContext (Val ''u-42'') (Val 7)) (sampleTrack complete)
            \<lparr>stream_id = ''s2'', getVideoTracks = [''t1'']\<rparr>
            (added (Val ''u-42'') (Val 7) [''t1''] complete))"

definition firstEnded :: world where
  "firstEnded = dispatchEvent (StreamTarget ''s1'') ''removetrack'' addedTwice"


definition registryKeyed :: "world \<Rightarrow> bool" where
  "registryKeyed w =
     (distinct (map fst (removeTrackRemovedEventListeners w))
      \<and> list_all (\<lambda>x. d_trackId (snd x) = fst x) (removeTrackRemovedEventListeners w))"

text \<open>
  The handler that \<open>bindExternalIdToRemoteTile\<close> has subscribed: the last one the
  presence feed holds after the call.
\<close>

definition installed ::
  "videoTile \<Rightarrow> string \<Rightarrow> string \<Rightarrow> int js \<Rightarrow> int js \<Rightarrow> int js \<Rightarrow> world \<Rightarrow> presenceHandler" where
  "installed tile attendeeId stream wd ht sid w =
     last (subscribed (bindExternalIdToRemoteTile tile attendeeId stream wd ht sid w))"

section \<open>Unfolding the model\<close>

lemmas collab_defs = removeVideoTilesByAttendeeId_def addVideoTile_def trackEvents_def
    nextBackoffAmountMs_def newTimeoutScheduler_def timerStart_def timerStop_def
    addEventListener_def removeEventListener_def logger_def state_def newTileState_def
    bindVideoStream_def videosPausedRemove_def removeVideoTile_def
    realtimeSubscribeToAttendeeIdPresence_def realtimeUnsubscribeToAttendeeIdPresence_def

lemmas task_defs = addRemoteVideoTrack_def bindTile_def retryWithBackoff_def retryFunc_def
    isCapabilitySet_def bindExternalIdToRemoteTile_def handler_def presenceTimeout_def
    removeRemoteVideoTrack_def trackRemovedHandler_def runDisposer_def removeObserver_def
    runRemoveTrackAddedEventListener_def fireTimer_def presenceEvent_def dispatchEvent_def

lemmas sample_defs = sampleContext_def sampleTrack_def sampleStream_def initial_def complete_def
    incomplete_def unreported_def backoffTimers_def timerIdsFresh_def sampleTracks_def
    sampleHandler_def

section \<open>The sample session\<close>

text \<open>
  The state after adding track \<open>t1\<close>, written out. Neither the snapshot nor the identity
  directory has been consulted: one backoff timer is pending, the tile is in the registry
  and unbound, the five logging callbacks are on the video sub-track and the removal
  trigger is on the stream.
\<close>

lemma added_eq:
  "added ext (Val n) [''t1''] c =
     \<lparr>removeTrackAddedEventListener = True,
      removeTrackRemovedEventListeners =
        [(''t1'', \<lparr>d_target = StreamTarget ''s1'', d_endEvent = ''removetrack'',
                  d_handler = TrackRemovedHandler ''t1'' 0, d_trackId = ''t1''\<rparr>)],
      presenceHandlerSet = [],
      removeVideoTrackEventListeners =
        [(''t1'', map (\<lambda>e. \<lparr>vd_videoTrack = ''t1'', vd_trackEvent = e,
                             vd_callback = DiagCallback e 0 ''t1'' (Val n)\<rparr>) trackEvents)],
      trackCapability = Null, backoffPolicy = Some 2, backoffTimer = Some 0,
      isContentWidthHeightSet = False, peer = True, peerTrackListener = True,
      listeners =
        map (\<lambda>e. (TrackTarget ''t1'', e, DiagCallback e 0 ''t1'' (Val n))) trackEvents
        @ [(StreamTarget ''s1'', ''removetrack'', TrackRemovedHandler ''t1'' 0)],
      timers =
        [(0, BackoffDraw 1,
          RetryFunc \<lparr>ba_track = ''t1'', ba_tile = 0, ba_attendeeId = ''a1'', ba_stream = ''s1'',
                     ba_streamId = Val n, ba_trackId = ''s1''\<rparr>)],
      nextTimerId = 1, subscribed = [], unsubscribeCalls = [],
      tiles = [(0, newTileState 0)], tileMap = [0], nextTileId = 1,
      videosPausedRemoved = [], logs = []\<rparr>"
  by (simp add: added_def task_defs sample_defs collab_defs Let_def)

text \<open>The same where the stream has no video sub-track: no logging callback is registered.\<close>

lemma added_without_video_eq:
  "added ext (Val n) [] c =
     \<lparr>removeTrackAddedEventListener = True,
      removeTrackRemovedEventListeners =
        [(''t1'', \<lparr>d_target = StreamTarget ''s1'', d_endEvent = ''removetrack'',
                  d_handler = TrackRemovedHandler ''t1'' 0, d_trackId = ''t1''\<rparr>)],
      presenceHandlerSet = [], removeVideoTrackEventListeners = [],
      trackCapability = Null, backoffPolicy = Some 2, backoffTimer = Some 0,
      isContentWidthHeightSet = False, peer = True, peerTrackListener = True,
      listeners = [(StreamTarget ''s1'', ''removetrack'', TrackRemovedHandler ''t1'' 0)],
      timers =
        [(0, BackoffDraw 1,
          RetryFunc \<lparr>ba_track = ''t1'', ba_tile = 0, ba_attendeeId = ''a1'', ba_stream = ''s1'',
                     ba_streamId = Val n, ba_trackId = ''s1''\<rparr>)],
      nextTimerId = 1, subscribed = [], unsubscribeCalls = [],
      tiles = [(0, newTileState 0)], tileMap = [0], nextTileId = 1,
      videosPausedRemoved = [], logs = []\<rparr>"
  by (simp add: added_def task_defs sample_defs collab_defs Let_def)

lemmas run_defs = awaiting_def bound_def released_def added_eq added_without_video_eq
    task_defs sample_defs collab_defs Let_def

section \<open>The capability check: what it accepts\<close>

text \<open>
  The check answers \<open>true\<close> exactly when a snapshot is there and its width is not
  \<open>null\<close>: the height is never looked at, and an \<open>undefined\<close> width passes.
\<close>

lemma isCapabilitySet_true_iff:
  "fst (isCapabilitySet w) = Inr True \<longleftrightarrow> (\<exists>c. trackCapability w = Val c \<and> width c \<noteq> Null)"
  by (cases "trackCapability w") (auto simp: isCapabilitySet_def)

text \<open>
  C1. The claim wants \<open>true\<close> only for a snapshot whose width and height are both present
  and non-null. The code answers \<open>true\<close> for a snapshot whose height is \<open>null\<close>, whose
  height is \<open>undefined\<close>, and whose width is \<open>undefined\<close>, whatever the rest of the state.
\<close>

theorem isCapabilitySet_ignores_height:
  "fst (isCapabilitySet (w\<lparr>trackCapability := Val \<lparr>width = Val 640, height = Null\<rparr>\<rparr>)) = Inr True
   \<and> fst (isCapabilitySet (w\<lparr>trackCapability := Val \<lparr>width = Val 640, height = Undefined\<rparr>\<rparr>)) = Inr True
   \<and> fst (isCapabilitySet (w\<lparr>trackCapability := Val \<lparr>width = Undefined, height = Val 480\<rparr>\<rparr>)) = Inr True"
  by (simp add: isCapabilitySet_def)

text \<open>
  C10. The claim wants \<open>false\<close>, and no error, where the stored snapshot is \<open>null\<close>. In
  every such state the code raises a TypeError and leaves the state as it was; this is
  the state between \<open>bindTile\<close> and the firing of the backoff timer.
\<close>

theorem isCapabilitySet_null_snapshot_raises:
  "isCapabilitySet (w\<lparr>trackCapability := Null\<rparr>) = (Inl TypeError, w\<lparr>trackCapability := Null\<rparr>)
   \<and> fst (isCapabilitySet (added Null (Val 7) [''t1''] complete)) = Inl TypeError"
  by (simp add: isCapabilitySet_def added_eq)

section \<open>Adding a track whose snapshot is already complete\<close>

text \<open>What the listener loop and the event targets leave alone.\<close>

lemma addEventListener_frame [simp]:
  "timers (addEventListener t e l w) = timers w"
  "nextTimerId (addEventListener t e l w) = nextTimerId w"
  "tiles (addEventListener t e l w) = tiles w"
  "subscribed (addEventListener t e l w) = subscribed w"
  "presenceHandlerSet (addEventListener t e l w) = presenceHandlerSet w"
  "trackCapability (addEventListener t e l w) = trackCapability w"
  "isContentWidthHeightSet (addEventListener t e l w) = isContentWidthHeightSet w"
  "backoffPolicy (addEventListener t e l w) = backoffPolicy w"
  "logs (addEventListener t e l w) = logs w"
  by (simp_all add: addEventListener_def)

lemma addVideoTrackEventListeners_frame [simp]:
  "timers (addVideoTrackEventListeners es track stream tile sid w) = timers w"
  "nextTimerId (addVideoTrackEventListeners es track stream tile sid w) = nextTimerId w"
  "tiles (addVideoTrackEventListeners es track stream tile sid w) = tiles w"
  "subscribed (addVideoTrackEventListeners es track stream tile sid w) = subscribed w"
  "presenceHandlerSet (addVideoTrackEventListeners es track stream tile sid w) = presenceHandlerSet w"
  by (induction es arbitrary: w) (simp_all add: Let_def split: list.splits)

text \<open>A new scheduler's id is not among the pending timers.\<close>

lemma fresh_filter:
  "timerIdsFresh w \<Longrightarrow> filter (\<lambda>x. fst x \<noteq> nextTimerId w) (timers w) = timers w"
  by (auto simp: timerIdsFresh_def list_all_iff filter_id_conv)

lemma fresh_map_of:
  "timerIdsFresh w \<Longrightarrow> map_of (timers w @ [(nextTimerId w, v)]) (nextTimerId w) = Some v"
  by (auto simp: timerIdsFresh_def list_all_iff map_add_def map_of_eq_None_iff [THEN iffD2]
        split: option.splits dest!: map_of_SomeD)

lemmas add_defs = addRemoteVideoTrack_def bindTile_def retryWithBackoff_def
    nextBackoffAmountMs_def newTimeoutScheduler_def timerStart_def
    removeVideoTilesByAttendeeId_def addVideoTile_def logger_def

text \<open>
  In every state with fresh scheduler ids, adding a track appends one timer, whose delay
  is the policy's second amount and whose callback is the reading function.
\<close>

lemma add_timers:
  assumes fresh: "timerIdsFresh w"
  shows "timers (snd (addRemoteVideoTrack ctx track stream w)) =
     timers w @ [(nextTimerId w, BackoffDraw 1,
        RetryFunc \<lparr>ba_track = track_id track, ba_tile = nextTileId w,
          ba_attendeeId = attendeeIdForTrack ctx
            (if requiresUnifiedPlan ctx then stream_id stream else track_id track),
          ba_stream = (if requiresUnifiedPlan ctx then stream_id stream else newMediaStreamId ctx),
          ba_streamId =
            (if streamIdForTrack ctx
                  (if requiresUnifiedPlan ctx then stream_id stream else track_id track) = Undefined
             then Null
             else streamIdForTrack ctx
                  (if requiresUnifiedPlan ctx then stream_id stream else track_id track)),
          ba_trackId = (if requiresUnifiedPlan ctx then stream_id stream else track_id track)\<rparr>)]"
  using fresh_filter [OF fresh]
  by (simp add: add_defs Let_def split_def)

lemma add_other:
  "fst (addRemoteVideoTrack ctx track stream w) = Inr ()"
  "trackCapability (snd (addRemoteVideoTrack ctx track stream w)) = Null"
  "subscribed (snd (addRemoteVideoTrack ctx track stream w)) = subscribed w"
  by (simp_all add: add_defs Let_def split_def)

text \<open>
  The pending reading function runs on a snapshot with a width and a height: the
  snapshot is stored and the tile is bound, or a presence handler is subscribed.
\<close>

lemma fire_complete:
  assumes pending: "map_of (timers w1) t = Some (d, RetryFunc a)"
    and full: "getSettings (env (ba_track a)) = Some (Val \<lparr>width = Val x, height = Val y\<rparr>)"
  shows "trackCapability (fireTimer ctx env t w1) = Val \<lparr>width = Val x, height = Val y\<rparr>"
    and "truthyStr (realtimeExternalUserIdFromAttendeeId ctx (ba_attendeeId a)) \<Longrightarrow>
          state (fireTimer ctx env t w1) (ba_tile a) =
            \<lparr>tileId = ba_tile a, boundAttendeeId = Val (ba_attendeeId a),
             boundExternalUserId = realtimeExternalUserIdFromAttendeeId ctx (ba_attendeeId a),
             boundStream = Val (ba_stream a), videoStreamContentWidth = Val x,
             videoStreamContentHeight = Val y, streamId = ba_streamId a\<rparr>
          \<and> subscribed (fireTimer ctx env t w1) = subscribed w1"
    and "\<not> truthyStr (realtimeExternalUserIdFromAttendeeId ctx (ba_attendeeId a)) \<Longrightarrow>
          subscribed (fireTimer ctx env t w1) = subscribed w1 @
            [\<lparr>ph_tile = ba_tile a, ph_attendeeId = ba_attendeeId a, ph_stream = ba_stream a,
              ph_width = Val x, ph_height = Val y, ph_streamId = ba_streamId a,
              ph_timeoutScheduler = nextTimerId w1\<rparr>]"
  using pending full
  by (simp_all add: fireTimer_def retryFunc_def isCapabilitySet_def bindExternalIdToRemoteTile_def
        bindVideoStream_def logger_def timerStop_def timerStart_def newTimeoutScheduler_def
        realtimeSubscribeToAttendeeIdPresence_def state_def Let_def update_conv')

text \<open>It starts no backoff timer: the one that fired is the only change.\<close>

lemma fire_complete_backoffTimers:
  assumes pending: "map_of (timers w1) t = Some (d, RetryFunc a)"
    and full: "getSettings (env (ba_track a)) = Some (Val \<lparr>width = Val x, height = Val y\<rparr>)"
    and fresh: "timerIdsFresh w1"
  shows "backoffTimers (fireTimer ctx env t w1) = filter (\<lambda>x. fst x \<noteq> t) (backoffTimers w1)"
proof -
  have "\<And>x. x \<in> set (timers w1) \<Longrightarrow> fst x \<noteq> nextTimerId w1"
    using fresh by (auto simp: timerIdsFresh_def list_all_iff)
  then have "filter (\<lambda>x. fst x \<noteq> t \<and> fst x \<noteq> nextTimerId w1 \<and> isBackoffTimer x) (timers w1)
           = filter (\<lambda>x. isBackoffTimer x \<and> fst x \<noteq> t) (timers w1)"
    by (intro filter_cong) auto
  moreover have "filter (\<lambda>x. fst x \<noteq> t \<and> isBackoffTimer x) (timers w1)
           = filter (\<lambda>x. isBackoffTimer x \<and> fst x \<noteq> t) (timers w1)"
    by (intro filter_cong) auto
  ultimately show ?thesis
    using pending full
    by (simp add: fireTimer_def retryFunc_def isCapabilitySet_def bindExternalIdToRemoteTile_def
        bindVideoStream_def logger_def timerStop_def timerStart_def newTimeoutScheduler_def
        realtimeSubscribeToAttendeeIdPresence_def backoffTimers_def Let_def)
qed

text \<open>Adding a track keeps the scheduler ids fresh.\<close>

lemma add_fresh:
  assumes fresh: "timerIdsFresh w"
  shows "timerIdsFresh (snd (addRemoteVideoTrack ctx track stream w))"
proof -
  have "nextTimerId (snd (addRemoteVideoTrack ctx track stream w)) = Suc (nextTimerId w)"
    by (simp add: add_defs Let_def split_def)
  then show ?thesis
    using fresh add_timers [OF fresh, of ctx track stream]
    by (auto simp: timerIdsFresh_def list_all_iff)
qed

text \<open>
  C2, as the claim states it: a track with a complete snapshot is added with no backoff
  timer started. Counterexample: track \<open>t1\<close> reports 1280 x 720 when it is added and its
  attendee's external id is known, yet adding it leaves one backoff timer pending, holding
  the function that will read the snapshot, and the tile is not bound yet.
\<close>

theorem addRemoteVideoTrack_complete_starts_timer:
  "backoffTimers initial = []
   \<and> backoffTimers (added (Val ''u-42'') (Val 7) [''t1''] complete) =
       [(0, BackoffDraw 1,
         RetryFunc \<lparr>ba_track = ''t1'', ba_tile = 0, ba_attendeeId = ''a1'', ba_stream = ''s1'',
                    ba_streamId = Val 7, ba_trackId = ''s1''\<rparr>)]
   \<and> boundAttendeeId (state (added (Val ''u-42'') (Val 7) [''t1''] complete) 0) = Null"
  by (simp add: added_eq sample_defs collab_defs)

text \<open>
  C2, amended. Adding a remote video track never raises and always starts exactly one
  backoff timer, without reading the snapshot (the stored snapshot is \<open>null\<close>). When
  that timer fires and the track reports a width and a height, the snapshot is stored,
  the backoff timers pending are those that were pending before the track was added, and
  the tile is bound with these dimensions if the identity directory knows the attendee,
  or else one presence handler for the tile is subscribed.
\<close>

theorem addRemoteVideoTrack_complete_snapshot:
  assumes fresh: "timerIdsFresh w"
    and full: "getSettings track = Some (Val \<lparr>width = Val x, height = Val y\<rparr>)"
  shows "let r = addRemoteVideoTrack ctx track stream w;
             w1 = snd r;
             w2 = fireTimer ctx (\<lambda>t. track) (nextTimerId w) w1;
             externalUserId = realtimeExternalUserIdFromAttendeeId ctx
               (attendeeIdForTrack ctx
                  (if requiresUnifiedPlan ctx then stream_id stream else track_id track))
         in fst r = Inr ()
          \<and> trackCapability w1 = Null
          \<and> map fst (backoffTimers w1) = map fst (backoffTimers w) @ [nextTimerId w]
          \<and> backoffTimers w2 = backoffTimers w
          \<and> trackCapability w2 = Val \<lparr>width = Val x, height = Val y\<rparr>
          \<and> (if truthyStr externalUserId
              then videoStreamContentWidth (state w2 (nextTileId w)) = Val x
                 \<and> videoStreamContentHeight (state w2 (nextTileId w)) = Val y
                 \<and> boundExternalUserId (state w2 (nextTileId w)) = externalUserId
                 \<and> subscribed w2 = subscribed w
              else map ph_tile (subscribed w2) = map ph_tile (subscribed w) @ [nextTileId w])"
proof -
  define trackId where "trackId = (if requiresUnifiedPlan ctx then stream_id stream else track_id track)"
  define a where "a = \<lparr>ba_track = track_id track, ba_tile = nextTileId w,
          ba_attendeeId = attendeeIdForTrack ctx trackId,
          ba_stream = (if requiresUnifiedPlan ctx then stream_id stream else newMediaStreamId ctx),
          ba_streamId = (if streamIdForTrack ctx trackId = Undefined then Null
             else streamIdForTrack ctx trackId),
          ba_trackId = trackId\<rparr>"
  define w1 where "w1 = snd (addRemoteVideoTrack ctx track stream w)"
  define w2 where "w2 = fireTimer ctx (\<lambda>t. track) (nextTimerId w) w1"
  have tm: "timers w1 = timers w @ [(nextTimerId w, BackoffDraw 1, RetryFunc a)]"
    unfolding w1_def a_def trackId_def by (rule add_timers [OF fresh])
  have pending: "map_of (timers w1) (nextTimerId w) = Some (BackoffDraw 1, RetryFunc a)"
    unfolding tm by (rule fresh_map_of [OF fresh])
  have full': "getSettings ((\<lambda>t. track) (ba_track a)) = Some (Val \<lparr>width = Val x, height = Val y\<rparr>)"
    using full by simp
  have fresh1: "timerIdsFresh w1"
    unfolding w1_def by (rule add_fresh [OF fresh])
  have old: "\<And>z. z \<in> set (timers w) \<Longrightarrow> fst z \<noteq> nextTimerId w"
    using fresh by (auto simp: timerIdsFresh_def list_all_iff)
  have b1: "backoffTimers w1 = backoffTimers w @ [(nextTimerId w, BackoffDraw 1, RetryFunc a)]"
    by (simp add: backoffTimers_def tm)
  have "\<And>z. z \<in> set (backoffTimers w) \<Longrightarrow> fst z \<noteq> nextTimerId w"
    using old by (simp add: backoffTimers_def)
  then have "filter (\<lambda>z. fst z \<noteq> nextTimerId w) (backoffTimers w) = backoffTimers w"
    by (simp add: filter_id_conv)
  then have b2: "backoffTimers w2 = backoffTimers w"
    unfolding w2_def fire_complete_backoffTimers [OF pending full' fresh1] b1 by simp
  have c2: "trackCapability w2 = Val \<lparr>width = Val x, height = Val y\<rparr>"
    unfolding w2_def by (rule fire_complete(1) [OF pending full'])
  have s1: "subscribed w1 = subscribed w"
    unfolding w1_def by (rule add_other(3))
  have known: "truthyStr (realtimeExternalUserIdFromAttendeeId ctx (attendeeIdForTrack ctx trackId)) \<Longrightarrow>
        videoStreamContentWidth (state w2 (nextTileId w)) = Val x
      \<and> videoStreamContentHeight (state w2 (nextTileId w)) = Val y
      \<and> boundExternalUserId (state w2 (nextTileId w)) =
          realtimeExternalUserIdFromAttendeeId ctx (attendeeIdForTrack ctx trackId)
      \<and> subscribed w2 = subscribed w"
    using fire_complete(2) [OF pending full', of ctx] s1 by (simp add: a_def w2_def)
  have unknown: "\<not> truthyStr (realtimeExternalUserIdFromAttendeeId ctx (attendeeIdForTrack ctx trackId)) \<Longrightarrow>
        map ph_tile (subscribed w2) = map ph_tile (subscribed w) @ [nextTileId w]"
    using fire_complete(3) [OF pending full', of ctx] s1 by (simp add: a_def w2_def)
  show ?thesis
    using add_other(1,2) [of ctx track stream w] b1 b2 c2 known unknown
    by (simp add: Let_def w1_def [symmetric] w2_def [symmetric] trackId_def [symmetric])
qed

theorem addRemoteVideoTrack_complete_snapshot_witness:
  "timerIdsFresh initial
   \<and> getSettings (sampleTrack complete) = Some (Val \<lparr>width = Val 1280, height = Val 720\<rparr>)
   \<and> fst (addRemoteVideoTrack (sampleContext (Val ''u-42'') (Val 7)) (sampleTrack complete)
             (sampleStream [''t1'']) initial) = Inr ()
   \<and> map fst (backoffTimers (added (Val ''u-42'') (Val 7) [''t1''] complete)) = [0]
   \<and> backoffTimers (fireTimer (sampleContext (Val ''u-42'') (Val 7)) (sampleTracks complete) 0
        (added (Val ''u-42'') (Val 7) [''t1''] complete)) = []
   \<and> videoStreamContentWidth (state (fireTimer (sampleContext (Val ''u-42'') (Val 7))
        (sampleTracks complete) 0 (added (Val ''u-42'') (Val 7) [''t1''] complete)) 0) = Val 1280"
proof -
  have h1: "timerIdsFresh initial"
    by (simp add: timerIdsFresh_def initial_def)
  have h2: "getSettings (sampleTrack complete) = Some (Val \<lparr>width = Val 1280, height = Val 720\<rparr>)"
    by (simp add: sampleTrack_def complete_def)
  have e: "sampleTracks complete = (\<lambda>t. sampleTrack complete)"
    by (simp add: sampleTracks_def fun_eq_iff)
  show ?thesis
    using h1 h2
      addRemoteVideoTrack_complete_snapshot [OF h1 h2,
        of "sampleContext (Val ''u-42'') (Val 7)" "sampleStream [''t1'']"]
    by (simp add: Let_def e added_def sampleContext_def initial_def backoffTimers_def)
qed

section \<open>An attempt that finds no dimensions\<close>

text \<open>
  When the timer fires on a snapshot whose width is \<open>null\<close>, the function stores the
  snapshot, leaves the flag down and returns: it starts no timer.
\<close>

lemma retryFunc_not_ready:
  "retryFunc ctx (track\<lparr>getSettings := Some (Val \<lparr>width = Null, height = h\<rparr>)\<rparr>) a w =
     (Inr (), w\<lparr>trackCapability := Val \<lparr>width = Null, height = h\<rparr>,
                isContentWidthHeightSet := False\<rparr>)"
  by (simp add: retryFunc_def isCapabilitySet_def Let_def)

text \<open>
  C3. The claim wants every unsuccessful attempt to schedule a further one. Track \<open>t1\<close> is
  added while its snapshot has \<open>null\<close> dimensions: one timer is pending. When it fires and
  the dimensions are still \<open>null\<close>, no timer is pending afterwards and the tile is as it
  was created, so nothing will read the snapshot again. Where the snapshot reports no
  dimensions at all (\<open>undefined\<close>), the single attempt binds the tile with an undefined
  width, and again no timer is pending.
\<close>

theorem retry_never_rescheduled:
  "map fst (timers (added (Val ''u-42'') (Val 7) [''t1''] incomplete)) = [0]
   \<and> timers (fireTimer (sampleContext (Val ''u-42'') (Val 7)) (sampleTracks incomplete) 0
        (added (Val ''u-42'') (Val 7) [''t1''] incomplete)) = []
   \<and> state (fireTimer (sampleContext (Val ''u-42'') (Val 7)) (sampleTracks incomplete) 0
        (added (Val ''u-42'') (Val 7) [''t1''] incomplete)) 0 = newTileState 0
   \<and> timers (fireTimer (sampleContext (Val ''u-42'') (Val 7)) (sampleTracks unreported) 0
        (added (Val ''u-42'') (Val 7) [''t1''] unreported)) = []
   \<and> videoStreamContentWidth (state (fireTimer (sampleContext (Val ''u-42'') (Val 7))
        (sampleTracks unreported) 0 (added (Val ''u-42'') (Val 7) [''t1''] unreported)) 0) = Undefined"
  by (simp add: run_defs)

section \<open>Teardown and the timers\<close>




lemma runDisposer_other [simp]:
  "timers (runDisposer d w) = timers w"
  "tileMap (runDisposer d w) = tileMap w"
  "removeVideoTrackEventListeners (runDisposer d w) = removeVideoTrackEventListeners w"
  "presenceHandlerSet (runDisposer d w) = presenceHandlerSet w"
  "subscribed (runDisposer d w) = subscribed w"
  "removeTrackAddedEventListener (runDisposer d w) = removeTrackAddedEventListener w"
  "videosPausedRemoved (runDisposer d w) = videosPausedRemoved w"
  "logs (runDisposer d w) = logs w"
  by (simp_all add: runDisposer_def removeEventListener_def Let_def)

lemma runTrackRemovedDisposers_other [simp]:
  "timers (runTrackRemovedDisposers ks w) = timers w"
  "tileMap (runTrackRemovedDisposers ks w) = tileMap w"
  "removeVideoTrackEventListeners (runTrackRemovedDisposers ks w) = removeVideoTrackEventListeners w"
  "presenceHandlerSet (runTrackRemovedDisposers ks w) = presenceHandlerSet w"
  "subscribed (runTrackRemovedDisposers ks w) = subscribed w"
  "removeTrackAddedEventListener (runTrackRemovedDisposers ks w) = removeTrackAddedEventListener w"
  by (induction ks arbitrary: w) (simp_all split: option.splits)

lemma runVideoDisposers_other [simp]:
  "timers (runVideoDisposers ds w) = timers w"
  "removeVideoTrackEventListeners (runVideoDisposers ds w) = removeVideoTrackEventListeners w"
  "removeTrackRemovedEventListeners (runVideoDisposers ds w) = removeTrackRemovedEventListeners w"
  "videosPausedRemoved (runVideoDisposers ds w) = videosPausedRemoved w"
  "tileMap (runVideoDisposers ds w) = tileMap w"
  "logs (runVideoDisposers ds w) = logs w"
  by (induction ds arbitrary: w) (simp_all add: removeEventListener_def)

lemma unsubscribeHandlers_other [simp]:
  "timers (unsubscribeHandlers hs w) = timers w"
  "tileMap (unsubscribeHandlers hs w) = tileMap w"
  "removeVideoTrackEventListeners (unsubscribeHandlers hs w) = removeVideoTrackEventListeners w"
  "removeTrackRemovedEventListeners (unsubscribeHandlers hs w) = removeTrackRemovedEventListeners w"
  "listeners (unsubscribeHandlers hs w) = listeners w"
  "removeTrackAddedEventListener (unsubscribeHandlers hs w) = removeTrackAddedEventListener w"
  by (induction hs arbitrary: w) (simp_all add: realtimeUnsubscribeToAttendeeIdPresence_def Let_def)





text \<open>
  Whenever \<open>removeRemoteVideoTrack\<close> completes: the track has no entry left in the
  registry of line 31, the tile has left the tile registry, and the paused-stream tracker
  was told the stream id exactly when the id is truthy; otherwise the warning was logged.
\<close>

lemma removeRemoteVideoTrack_completes:
  assumes "fst (removeRemoteVideoTrack t ts w) = Inr ()"
  shows "map_of (removeVideoTrackEventListeners (snd (removeRemoteVideoTrack t ts w))) t = None"
    and "videosPausedRemoved (snd (removeRemoteVideoTrack t ts w)) =
           (if truthyNum (streamId ts) then videosPausedRemoved w @ [streamId ts]
            else videosPausedRemoved w)"
    and "logs (snd (removeRemoteVideoTrack t ts w)) =
           (if truthyNum (streamId ts)
            then logs w @ [InfoVideoTrackEnded (tileId ts) t (streamId ts)]
            else logs w @ [InfoVideoTrackEnded (tileId ts) t (streamId ts),
                           WarnNoStreamFound (tileId ts)])"
    and "tileMap (snd (removeRemoteVideoTrack t ts w)) = removeAll (tileId ts) (tileMap w)"
  using assms
  by (auto simp: removeRemoteVideoTrack_def logger_def videosPausedRemove_def removeVideoTile_def
        Let_def delete_conv' split: option.splits)

text \<open>In every state, a call that follows a completed call for the same track raises.\<close>

lemma removeRemoteVideoTrack_again_raises:
  assumes "fst (removeRemoteVideoTrack t ts w) = Inr ()"
  shows "fst (removeRemoteVideoTrack t ts' (snd (removeRemoteVideoTrack t ts w))) = Inl TypeError"
  using removeRemoteVideoTrack_completes(1) [OF assms]
  by (simp add: removeRemoteVideoTrack_def Let_def split: option.splits)





text \<open>
  Registering a track stores its disposer under the track's id, overwriting whatever
  disposer the registry kept there.
\<close>

lemma addEventListener_registry [simp]:
  "removeTrackRemovedEventListeners (addEventListener t e l w) = removeTrackRemovedEventListeners w"
  "nextTileId (addEventListener t e l w) = nextTileId w"
  by (simp_all add: addEventListener_def)

lemma addVideoTrackEventListeners_registry [simp]:
  "removeTrackRemovedEventListeners (addVideoTrackEventListeners es track stream tile sid w) =
     removeTrackRemovedEventListeners w"
  by (induction es arbitrary: w) (simp_all add: Let_def split: list.splits)

lemma addRemoteVideoTrack_overwrites_disposer:
  "removeTrackRemovedEventListeners (snd (addRemoteVideoTrack ctx track stream w)) =
     AList.update (track_id track)
       \<lparr>d_target = (if requiresUnifiedPlan ctx then StreamTarget (stream_id stream)
                    else TrackTarget (track_id track)),
        d_endEvent = (if requiresUnifiedPlan ctx then ''removetrack'' else ''ended''),
        d_handler = TrackRemovedHandler (track_id track) (nextTileId w),
        d_trackId = track_id track\<rparr>
       (removeTrackRemovedEventListeners w)"
  by (simp add: addRemoteVideoTrack_def bindTile_def retryWithBackoff_def nextBackoffAmountMs_def
       newTimeoutScheduler_def timerStart_def removeVideoTilesByAttendeeId_def addVideoTile_def
       logger_def Let_def split_def)

text \<open>
  So the registry has its shape in the state after \<open>run\<close>, and adding a track and the
  removal path keep it.
\<close>

lemma registryKeyed_initial: "registryKeyed initial"
  by (simp add: registryKeyed_def initial_def)

lemma registryKeyed_added:
  assumes "registryKeyed w"
  shows "registryKeyed (snd (addRemoteVideoTrack ctx track stream w))"
proof -
  have "\<And>k (v :: disposer) al. list_all (\<lambda>x. d_trackId (snd x) = fst x) al \<Longrightarrow> d_trackId v = k \<Longrightarrow>
          list_all (\<lambda>x. d_trackId (snd x) = fst x) (AList.update k v al)"
  proof -
    fix k and v :: disposer and al :: "(string \<times> disposer) list"
    assume "list_all (\<lambda>x. d_trackId (snd x) = fst x) al" "d_trackId v = k"
    then show "list_all (\<lambda>x. d_trackId (snd x) = fst x) (AList.update k v al)"
      by (induction al) auto
  qed
  then show ?thesis
    using assms
    by (simp add: registryKeyed_def addRemoteVideoTrack_overwrites_disposer distinct_update)
qed

lemma removeRemoteVideoTrack_registry:
  "removeTrackRemovedEventListeners (snd (removeRemoteVideoTrack t ts w)) =
     (case map_of (removeTrackRemovedEventListeners w) t of
        None \<Rightarrow> removeTrackRemovedEventListeners w
      | Some d \<Rightarrow> AList.delete (d_trackId d) (removeTrackRemovedEventListeners w))"
  by (simp add: removeRemoteVideoTrack_def runDisposer_def removeEventListener_def
        logger_def videosPausedRemove_def removeVideoTile_def Let_def split: option.splits)

lemma registryKeyed_removed:
  assumes "registryKeyed w"
  shows "registryKeyed (snd (removeRemoteVideoTrack t ts w))"
proof -
  have "\<And>k (al :: (string \<times> disposer) list).
          list_all (\<lambda>x. d_trackId (snd x) = fst x) al \<Longrightarrow>
          list_all (\<lambda>x. d_trackId (snd x) = fst x) (AList.delete k al)"
    by (auto simp: list_all_iff AList.delete_eq)
  then show ?thesis
    using assms
    by (simp add: registryKeyed_def removeRemoteVideoTrack_registry distinct_delete
          split: option.splits)
qed



section \<open>Who unsubscribes a presence handler\<close>

text \<open>
  C5. The claim wants the unsubscribe path to run exactly once per subscription and
  nothing left behind when the track's life ends. In \<open>awaiting\<close> the handler is subscribed
  and its timeout, timer 1, is pending. \<open>removeObserver\<close> unsubscribes the handler and
  leaves timer 1 pending; when the timer fires, the handler is unsubscribed a second
  time. And when instead the track's removal trigger fires, it completes and removes the
  tile with the handler still subscribed and timer 1 still pending, so that a presence
  event for the attendee still reaches the handler and binds the removed tile.
\<close>

theorem presence_handler_unsubscribed_twice:
  "subscribed awaiting = [sampleHandler]
   \<and> map fst (timers awaiting) = [1]
   \<and> unsubscribeCalls (removeObserver awaiting) = [sampleHandler]
   \<and> map fst (timers (removeObserver awaiting)) = [1]
   \<and> unsubscribeCalls (fireTimer (sampleContext Null (Val 7)) (sampleTracks complete) 1
        (removeObserver awaiting)) = [sampleHandler, sampleHandler]
   \<and> fst (trackRemovedHandler ''t1'' 0 awaiting) = Inr ()
   \<and> subscribed (snd (trackRemovedHandler ''t1'' 0 awaiting)) = [sampleHandler]
   \<and> map fst (timers (snd (trackRemovedHandler ''t1'' 0 awaiting))) = [1]
   \<and> tileMap (snd (trackRemovedHandler ''t1'' 0 awaiting)) = []
   \<and> boundExternalUserId (state (presenceEvent ''a1'' True (Val ''u-42'')
        (snd (trackRemovedHandler ''t1'' 0 awaiting))) 0) = Val ''u-42''"
  by (simp add: run_defs)

text \<open>
  What the handler of lines 168-175 does, for every handler, event and state: it acts
  exactly when the event is for its attendee, says present and carries an external id
  that is not \<open>null\<close> by the strict comparison of line 169. Then, in that one call, the
  tile is bound with the event's external id and the captured stream, dimensions and
  stream id, the handler is unsubscribed (once) and gone from the handler set, and its
  timeout is no longer pending. On any other event the state is unchanged.
\<close>

lemma handler_acts_unless_null:
  "(ph_attendeeId h = presentAttendeeId \<and> present \<and> externalUserId \<noteq> Null \<longrightarrow>
      state (handler h presentAttendeeId present externalUserId w) (ph_tile h) =
        \<lparr>tileId = ph_tile h, boundAttendeeId = Val (ph_attendeeId h),
         boundExternalUserId = externalUserId, boundStream = Val (ph_stream h),
         videoStreamContentWidth = ph_width h, videoStreamContentHeight = ph_height h,
         streamId = ph_streamId h\<rparr>
      \<and> h \<notin> set (subscribed (handler h presentAttendeeId present externalUserId w))
      \<and> unsubscribeCalls (handler h presentAttendeeId present externalUserId w) =
          unsubscribeCalls w @ [h]
      \<and> h \<notin> set (presenceHandlerSet (handler h presentAttendeeId present externalUserId w))
      \<and> ph_timeoutScheduler h
          \<notin> fst ` set (timers (handler h presentAttendeeId present externalUserId w)))
   \<and> (\<not> (ph_attendeeId h = presentAttendeeId \<and> present \<and> externalUserId \<noteq> Null) \<longrightarrow>
      handler h presentAttendeeId present externalUserId w = w)"
  by (auto simp: handler_def bindVideoStream_def realtimeUnsubscribeToAttendeeIdPresence_def
      timerStop_def state_def Let_def update_conv')

text \<open>
  In every state, \<open>bindExternalIdToRemoteTile\<close> subscribes one handler, which captures the
  arguments of the call and a new timeout scheduler, puts it into the handler set and
  makes its timeout pending.
\<close>

lemma bindExternalIdToRemoteTile_installs:
  "subscribed (bindExternalIdToRemoteTile tile attendeeId stream wd ht sid w) =
     subscribed w @
       [\<lparr>ph_tile = tile, ph_attendeeId = attendeeId, ph_stream = stream, ph_width = wd,
         ph_height = ht, ph_streamId = sid, ph_timeoutScheduler = nextTimerId w\<rparr>]"
  "\<lparr>ph_tile = tile, ph_attendeeId = attendeeId, ph_stream = stream, ph_width = wd,
     ph_height = ht, ph_streamId = sid, ph_timeoutScheduler = nextTimerId w\<rparr>
     \<in> set (presenceHandlerSet (bindExternalIdToRemoteTile tile attendeeId stream wd ht sid w))"
  "(nextTimerId w, ExternalUserIdTimeoutMs,
     PresenceTimeout \<lparr>ph_tile = tile, ph_attendeeId = attendeeId, ph_stream = stream,
       ph_width = wd, ph_height = ht, ph_streamId = sid, ph_timeoutScheduler = nextTimerId w\<rparr>)
     \<in> set (timers (bindExternalIdToRemoteTile tile attendeeId stream wd ht sid w))"
  by (simp_all add: bindExternalIdToRemoteTile_def newTimeoutScheduler_def timerStart_def
        realtimeSubscribeToAttendeeIdPresence_def Let_def)

text \<open>
  C6. The claim wants the handler installed by \<open>bindExternalIdToRemoteTile\<close> to bind only
  on an event for its attendee that says present and carries an external id, and to
  change nothing on any other event. In every state, the installed handler, called with
  an event for its attendee that says present and carries no external id (\<open>undefined\<close>,
  which the handler type of line 21 admits), binds the tile with an undefined external
  id, and is unsubscribed with its timeout cancelled, so that no later event can bind the
  tile. On the sample session: in \<open>awaiting\<close> the tile is unbound and the handler waits;
  after the presence feed has delivered such an event, the tile is bound to the attendee
  with an undefined external id, no handler is subscribed and no timer is pending.
\<close>

theorem presence_handler_binds_undefined_id:
  "installed tile attendeeId stream wd ht sid w =
     \<lparr>ph_tile = tile, ph_attendeeId = attendeeId, ph_stream = stream, ph_width = wd,
      ph_height = ht, ph_streamId = sid, ph_timeoutScheduler = nextTimerId w\<rparr>
   \<and> state (handler (installed tile attendeeId stream wd ht sid w) attendeeId True Undefined
               (bindExternalIdToRemoteTile tile attendeeId stream wd ht sid w)) tile =
       \<lparr>tileId = tile, boundAttendeeId = Val attendeeId, boundExternalUserId = Undefined,
        boundStream = Val stream, videoStreamContentWidth = wd, videoStreamContentHeight = ht,
        streamId = sid\<rparr>
   \<and> installed tile attendeeId stream wd ht sid w
       \<notin> set (subscribed (handler (installed tile attendeeId stream wd ht sid w) attendeeId True
             Undefined (bindExternalIdToRemoteTile tile attendeeId stream wd ht sid w)))
   \<and> nextTimerId w
       \<notin> fst ` set (timers (handler (installed tile attendeeId stream wd ht sid w) attendeeId True
             Undefined (bindExternalIdToRemoteTile tile attendeeId stream wd ht sid w)))
   \<and> subscribed awaiting = [sampleHandler]
   \<and> map fst (timers awaiting) = [1]
   \<and> boundAttendeeId (state awaiting 0) = Null
   \<and> boundAttendeeId (state (presenceEvent ''a1'' True Undefined awaiting) 0) = Val ''a1''
   \<and> boundExternalUserId (state (presenceEvent ''a1'' True Undefined awaiting) 0) = Undefined
   \<and> subscribed (presenceEvent ''a1'' True Undefined awaiting) = []
   \<and> timers (presenceEvent ''a1'' True Undefined awaiting) = []"
proof -
  have i: "installed tile attendeeId stream wd ht sid w =
     \<lparr>ph_tile = tile, ph_attendeeId = attendeeId, ph_stream = stream, ph_width = wd,
      ph_height = ht, ph_streamId = sid, ph_timeoutScheduler = nextTimerId w\<rparr>"
    by (simp add: installed_def bindExternalIdToRemoteTile_installs(1))
  have g: "state (handler (installed tile attendeeId stream wd ht sid w) attendeeId True Undefined
               (bindExternalIdToRemoteTile tile attendeeId stream wd ht sid w)) tile =
       \<lparr>tileId = tile, boundAttendeeId = Val attendeeId, boundExternalUserId = Undefined,
        boundStream = Val stream, videoStreamContentWidth = wd, videoStreamContentHeight = ht,
        streamId = sid\<rparr>
   \<and> installed tile attendeeId stream wd ht sid w
       \<notin> set (subscribed (handler (installed tile attendeeId stream wd ht sid w) attendeeId True
             Undefined (bindExternalIdToRemoteTile tile attendeeId stream wd ht sid w)))
   \<and> nextTimerId w
       \<notin> fst ` set (timers (handler (installed tile attendeeId stream wd ht sid w) attendeeId True
             Undefined (bindExternalIdToRemoteTile tile attendeeId stream wd ht sid w)))"
    unfolding i
    by (auto simp: handler_def bindVideoStream_def realtimeUnsubscribeToAttendeeIdPresence_def
          timerStop_def state_def Let_def update_conv')
  have s: "subscribed awaiting = [sampleHandler]
   \<and> map fst (timers awaiting) = [1]
   \<and> boundAttendeeId (state awaiting 0) = Null
   \<and> boundAttendeeId (state (presenceEvent ''a1'' True Undefined awaiting) 0) = Val ''a1''
   \<and> boundExternalUserId (state (presenceEvent ''a1'' True Undefined awaiting) 0) = Undefined
   \<and> subscribed (presenceEvent ''a1'' True Undefined awaiting) = []
   \<and> timers (presenceEvent ''a1'' True Undefined awaiting) = []"
    by (simp add: run_defs)
  from i g s show ?thesis by blast
qed

section \<open>The removal path\<close>

text \<open>
  C7. The claim wants a second release for the same track to change nothing and raise
  nothing. The removal trigger of \<open>t1\<close> fires and completes: its listener is gone from the
  stream, both registries have lost their entry for \<open>t1\<close>, and the stream's event finds
  nothing more to call. Entering \<open>removeRemoteVideoTrack\<close> for \<open>t1\<close> again raises a
  TypeError at line 355 and leaves the state as it is.
\<close>

theorem removeRemoteVideoTrack_second_call_raises:
  "fst (trackRemovedHandler ''t1'' 0 (added (Val ''u-42'') (Val 7) [''t1''] complete)) = Inr ()
   \<and> listeners released = []
   \<and> removeTrackRemovedEventListeners released = []
   \<and> removeVideoTrackEventListeners released = []
   \<and> dispatchEvent (StreamTarget ''s1'') ''removetrack'' released = released
   \<and> trackRemovedHandler ''t1'' 0 released = (Inl TypeError, released)"
  by (simp add: run_defs)

text \<open>The state \<open>released\<close> is what the stream's event leads to.\<close>

lemma released_by_event:
  "dispatchEvent (StreamTarget ''s1'') ''removetrack''
     (added (Val ''u-42'') (Val 7) [''t1''] complete) = released"
  by (simp add: run_defs)

text \<open>
  A second call is reached by events alone when a track id is registered twice:
  registering a track overwrites whatever disposer the registry kept under its id
  (\<open>addRemoteVideoTrack_overwrites_disposer\<close>).
\<close>

text \<open>
  Track \<open>t1\<close> is registered for stream \<open>s1\<close> and then for stream \<open>s2\<close>, and \<open>s1\<close>
  reports a removed track. The first trigger runs the second trigger's disposer: tile 0
  leaves the registry and the listener on \<open>s2\<close> is removed, while the first trigger stays
  on \<open>s1\<close>.
\<close>

lemma firstEnded_eq:
  "firstEnded =
     \<lparr>removeTrackAddedEventListener = True, removeTrackRemovedEventListeners = [],
      presenceHandlerSet = [], removeVideoTrackEventListeners = [], trackCapability = Null,
      backoffPolicy = Some 2, backoffTimer = Some 1, isContentWidthHeightSet = False,
      peer = True, peerTrackListener = True,
      listeners = [(StreamTarget ''s1'', ''removetrack'', TrackRemovedHandler ''t1'' 0)],
      timers =
        [(0, BackoffDraw 1,
          RetryFunc \<lparr>ba_track = ''t1'', ba_tile = 0, ba_attendeeId = ''a1'', ba_stream = ''s1'',
                     ba_streamId = Val 7, ba_trackId = ''s1''\<rparr>),
         (1, BackoffDraw 1,
          RetryFunc \<lparr>ba_track = ''t1'', ba_tile = 1, ba_attendeeId = ''a1'', ba_stream = ''s2'',
                     ba_streamId = Val 7, ba_trackId = ''s2''\<rparr>)],
      nextTimerId = 2, subscribed = [], unsubscribeCalls = [],
      tiles = [(0, newTileState 0), (1, newTileState 1)], tileMap = [1], nextTileId = 2,
      videosPausedRemoved = [],
      logs = [InfoVideoTrackEnded 0 ''t1'' Null, WarnNoStreamFound 0]\<rparr>"
  by (simp add: firstEnded_def addedTwice_def added_eq task_defs sample_defs collab_defs Let_def)

text \<open>
  So the first trigger raises the next time \<open>s1\<close> reports a removed track, and tile 1
  stays in the registry with no trigger left on \<open>s2\<close>.
\<close>

lemma removal_trigger_fires_again:
  "fst (trackRemovedHandler ''t1'' 0 firstEnded) = Inl TypeError
   \<and> dispatchEvent (StreamTarget ''s2'') ''removetrack'' firstEnded = firstEnded"
  by (simp add: firstEnded_eq task_defs collab_defs)

text \<open>
  C8. The claim wants the removal path to complete for a track whose stream has no video
  sub-track. Adding such a track completes and registers no logging callback, so the
  registry of line 31 has no entry for \<open>t1\<close>. When the removal trigger fires,
  \<open>removeRemoteVideoTrack\<close> raises a TypeError at line 357, after the trigger has removed
  itself: the tile stays in the registry and nothing is left to remove it.
\<close>

theorem removeRemoteVideoTrack_without_video_tracks_raises:
  "fst (addRemoteVideoTrack (sampleContext (Val ''u-42'') (Val 7)) (sampleTrack complete)
          (sampleStream []) initial) = Inr ()
   \<and> removeVideoTrackEventListeners (added (Val ''u-42'') (Val 7) [] complete) = []
   \<and> fst (trackRemovedHandler ''t1'' 0 (added (Val ''u-42'') (Val 7) [] complete)) = Inl TypeError
   \<and> tileMap (snd (trackRemovedHandler ''t1'' 0 (added (Val ''u-42'') (Val 7) [] complete))) = [0]
   \<and> listeners (snd (trackRemovedHandler ''t1'' 0 (added (Val ''u-42'') (Val 7) [] complete))) = []"
  by (simp add: run_defs)

text \<open>
  C9. The claim wants a known stream id, 0 included, to be dropped from the paused-stream
  tracker. Track \<open>t1\<close> has stream id 0 and its tile is bound with it. When the track
  ends, the removal path completes and removes the tile, but the tracker is not called:
  the warning of line 369 is logged instead. With stream id 7 the tracker is called.
\<close>

theorem removeRemoteVideoTrack_stream_id_zero_warns:
  "streamId (state (bound (Val 0)) 0) = Val 0
   \<and> fst (trackRemovedHandler ''t1'' 0 (bound (Val 0))) = Inr ()
   \<and> videosPausedRemoved (snd (trackRemovedHandler ''t1'' 0 (bound (Val 0)))) = []
   \<and> logs (snd (trackRemovedHandler ''t1'' 0 (bound (Val 0)))) =
        [InfoVideoTrackAdded 0 ''s1'' (Val 0), InfoVideoTrackEnded 0 ''t1'' (Val 0),
         WarnNoStreamFound 0]
   \<and> tileMap (snd (trackRemovedHandler ''t1'' 0 (bound (Val 0)))) = []
   \<and> videosPausedRemoved (snd (trackRemovedHandler ''t1'' 0 (bound (Val 7)))) = [Val 7]"
  by (simp add: run_defs)

end
